theory Spec2Isabelle
  imports Complex_Main
begin

section \<open>JavaScript values\<close>

text \<open>
  The program is \<^verbatim>\<open>src/public/server.js\<close>. Its data are untyped JavaScript values
  that come out of \<^verbatim>\<open>JSON.parse\<close> (the request body, the upstream response
  bodies), so the embedding works on a datatype of such values.

  \<^item> A number is an IEEE double. The program only tests a number for truthiness,
    compares it with \<open>0\<close> and converts it to a string, so a finite double is modelled by
    the real number it denotes (\<open>+0\<close> and \<open>-0\<close> both by \<open>0\<close>: the program cannot tell
    them apart), next to \<open>NaN\<close> and the two infinities.
  \<^item> A string is a \<open>string\<close>: the UTF-8 bytes of the JavaScript string.
  \<^item> An object is the list of its own properties; \<open>map_of\<close> reads one.
\<close>

datatype jsnum = NaN | PosInfinity | NegInfinity | Finite real

datatype jsval =
    JUndefined
  | JNull
  | JBool bool
  | JNum jsnum
  | JStr string
  | JArr "jsval list"
  | JObj "(string \<times> jsval) list"

text \<open>The only exception the modelled code can raise by itself is a \<^verbatim>\<open>TypeError\<close>.\<close>

datatype error = TypeError

definition andThen :: "error + 'a \<Rightarrow> ('a \<Rightarrow> error + 'b) \<Rightarrow> error + 'b" where
  "andThen r k = (case r of Inl e \<Rightarrow> Inl e | Inr x \<Rightarrow> k x)"

text \<open>Truthiness (\<^verbatim>\<open>ToBoolean\<close>): what \<^verbatim>\<open>!x\<close>, \<^verbatim>\<open>x && y\<close> and \<^verbatim>\<open>x || y\<close> test.\<close>

fun truthy :: "jsval \<Rightarrow> bool" where
  "truthy JUndefined = False"
| "truthy JNull = False"
| "truthy (JBool b) = b"
| "truthy (JNum n) = (n \<noteq> NaN \<and> n \<noteq> Finite 0)"
| "truthy (JStr s) = (s \<noteq> [])"
| "truthy (JArr xs) = True"
| "truthy (JObj kvs) = True"

text \<open>\<^verbatim>\<open>a || b\<close>: the left operand when it is truthy, the right one otherwise.\<close>

definition js_or :: "jsval \<Rightarrow> jsval \<Rightarrow> jsval" where
  "js_or a b = (if truthy a then a else b)"

text \<open>
  \<^verbatim>\<open>typeof x === "number" && x < 0\<close>: the comparison is evaluated for numbers only;
  \<open>NaN < 0\<close> is false.
\<close>

fun lt_zero :: "jsnum \<Rightarrow> bool" where
  "lt_zero NaN = False"
| "lt_zero PosInfinity = False"
| "lt_zero NegInfinity = True"
| "lt_zero (Finite r) = (r < 0)"

fun isNumber :: "jsval \<Rightarrow> bool" where
  "isNumber (JNum n) = True"
| "isNumber v = False"

fun number_lt_zero :: "jsval \<Rightarrow> bool" where
  "number_lt_zero (JNum n) = lt_zero n"
| "number_lt_zero v = False"

text \<open>
  \<^verbatim>\<open>obj.key\<close> for the keys the program reads (\<^verbatim>\<open>urls\<close>, \<^verbatim>\<open>category\<close>,
  \<^verbatim>\<open>threat_category\<close>, \<^verbatim>\<open>score\<close>, \<^verbatim>\<open>reputation_score\<close>,
  \<^verbatim>\<open>webfilter_category\<close>, \<^verbatim>\<open>threat\<close>, \<^verbatim>\<open>threat_level\<close>). None of them is an
  index, \<^verbatim>\<open>length\<close> or a property of a built-in prototype, so only an object's own
  properties can answer; reading a property of \<^verbatim>\<open>null\<close> or \<^verbatim>\<open>undefined\<close> throws.
\<close>

fun getProp :: "jsval \<Rightarrow> string \<Rightarrow> error + jsval" where
  "getProp JUndefined k = Inl TypeError"
| "getProp JNull k = Inl TypeError"
| "getProp (JObj kvs) k = Inr (case map_of kvs k of None \<Rightarrow> JUndefined | Some v \<Rightarrow> v)"
| "getProp v k = Inr JUndefined"

text \<open>
  Two functions of the language are left open: the decimal rendering of a number
  (\<^verbatim>\<open>Number::toString\<close>) and the lower-casing of a string that holds a byte outside
  ASCII (the case mapping of Unicode). They are the two fields of the parameter \<open>js\<close>
  of the definitions below, and every theorem holds for each choice of them.
\<close>

record builtins =
  numberToString :: "jsnum \<Rightarrow> string"
  lowerNonAscii :: "string \<Rightarrow> string"

text \<open>
  \<^verbatim>\<open>String(v)\<close>. An array is rendered by \<^verbatim>\<open>Array.prototype.join\<close> (elements
  separated by a comma, \<^verbatim>\<open>null\<close> and \<^verbatim>\<open>undefined\<close> as the empty string). A plain
  object is \<^verbatim>\<open>[object Object]\<close>, unless it has an own property \<^verbatim>\<open>toString\<close>:
  parsed JSON never holds a function, so the conversion finds no callable method that
  yields a primitive and throws.
\<close>

fun joinWith :: "string \<Rightarrow> string list \<Rightarrow> string" where
  "joinWith sep [] = []"
| "joinWith sep [x] = x"
| "joinWith sep (x # y # ys) = x @ sep @ joinWith sep (y # ys)"

fun String_js :: "builtins \<Rightarrow> jsval \<Rightarrow> error + string"
  and elementStrings :: "builtins \<Rightarrow> jsval list \<Rightarrow> error + string list" where
  "String_js js JUndefined = Inr ''undefined''"
| "String_js js JNull = Inr ''null''"
| "String_js js (JBool b) = Inr (if b then ''true'' else ''false'')"
| "String_js js (JNum n) = Inr (numberToString js n)"
| "String_js js (JStr s) = Inr s"
| "String_js js (JArr xs) =
     andThen (elementStrings js xs) (\<lambda>ss. Inr (joinWith '','' ss))"
| "String_js js (JObj kvs) =
     (if ''toString'' \<in> set (map fst kvs) then Inl TypeError else Inr ''[object Object]'')"
| "elementStrings js [] = Inr []"
| "elementStrings js (x # xs) =
     andThen (if x = JNull \<or> x = JUndefined then Inr [] else String_js js x)
       (\<lambda>s. andThen (elementStrings js xs) (\<lambda>ss. Inr (s # ss)))"

text \<open>
  \<^verbatim>\<open>s.toLowerCase()\<close>. On a string of ASCII characters (every byte below 128: its
  top bit is clear) the letters \<^verbatim>\<open>A\<close> to \<^verbatim>\<open>Z\<close> go to \<^verbatim>\<open>a\<close> to \<^verbatim>\<open>z\<close> and
  every other character stays. On any other string the result is the one Unicode's case
  mapping gives, \<open>lowerNonAscii js\<close>.
\<close>

definition isAscii :: "string \<Rightarrow> bool" where
  "isAscii s = list_all (\<lambda>c. \<not> digit7 c) s"

definition lowerChar :: "char \<Rightarrow> char" where
  "lowerChar c =
     (case map_of (zip ''ABCDEFGHIJKLMNOPQRSTUVWXYZ'' ''abcdefghijklmnopqrstuvwxyz'') c of
        Some d \<Rightarrow> d
      | None \<Rightarrow> c)"

definition toLowerCase :: "builtins \<Rightarrow> string \<Rightarrow> string" where
  "toLowerCase js s = (if isAscii s then map lowerChar s else lowerNonAscii js s)"

text \<open>
  \<^verbatim>\<open>v.toLowerCase()\<close> on a value: only a string has the method; on anything else the
  call throws (no method on a number, a boolean, an array or an object of parsed JSON, no
  property at all on \<^verbatim>\<open>null\<close> and \<^verbatim>\<open>undefined\<close>).
\<close>

fun call_toLowerCase :: "builtins \<Rightarrow> jsval \<Rightarrow> error + string" where
  "call_toLowerCase js (JStr s) = Inr (toLowerCase js s)"
| "call_toLowerCase js v = Inl TypeError"

text \<open>\<^verbatim>\<open>t.includes(s)\<close>: \<open>s\<close> occurs in \<open>t\<close> as a contiguous substring.\<close>

fun startsWith :: "string \<Rightarrow> string \<Rightarrow> bool" where
  "startsWith t [] = True"
| "startsWith [] (c # s) = False"
| "startsWith (d # t) (c # s) = (d = c \<and> startsWith t s)"

fun includes_js :: "string \<Rightarrow> string \<Rightarrow> bool" where
  "includes_js [] s = (s = [])"
| "includes_js (d # t) s = (startsWith (d # t) s \<or> includes_js t s)"

text \<open>\<^verbatim>\<open>xs.some(p)\<close>.\<close>

fun some :: "'a list \<Rightarrow> ('a \<Rightarrow> bool) \<Rightarrow> bool" where
  "some [] p = False"
| "some (x # xs) p = (p x \<or> some xs p)"

section \<open>Verdict fragments and the classifier\<close>

text \<open>
  The object a client returns: \<^verbatim>\<open>{category, score, raw}\<close> for Talos,
  \<^verbatim>\<open>{category, threat, raw}\<close> for FortiGuard. A client that has no data returns
  \<^verbatim>\<open>null\<close>, here \<open>None\<close>.
\<close>

record fragment =
  category :: jsval
  raw :: jsval

record talosFragment = fragment +
  score :: jsval

record fortiFragment = fragment +
  threat :: jsval

record classification =
  status :: string
  label :: string
  reason :: string

text \<open>\<^verbatim>\<open>frag && frag.field\<close>: \<^verbatim>\<open>null\<close> when the fragment is \<^verbatim>\<open>null\<close>.\<close>

definition andField :: "'a option \<Rightarrow> ('a \<Rightarrow> jsval) \<Rightarrow> jsval" where
  "andField frag field = (case frag of None \<Rightarrow> JNull | Some x \<Rightarrow> field x)"

text \<open>
  \<^verbatim>\<open>if (frag && frag.field) categories.push(String(frag.field).toLowerCase())\<close>
\<close>

definition pushCategory ::
  "builtins \<Rightarrow> jsval \<Rightarrow> string list \<Rightarrow> error + string list" where
  "pushCategory js v categories =
     (if truthy v
      then andThen (String_js js v) (\<lambda>s. Inr (categories @ [toLowerCase js s]))
      else Inr categories)"

definition collectCategories ::
  "builtins \<Rightarrow> ('a talosFragment_scheme) option \<Rightarrow> ('b fortiFragment_scheme) option
     \<Rightarrow> error + string list" where
  "collectCategories js talos forti =
     andThen (pushCategory js (andField talos category) []) (\<lambda>c1.
     andThen (pushCategory js (andField forti category) c1) (\<lambda>c2.
     pushCategory js (andField forti threat) c2))"

definition blockedSignals :: "string list" where
  "blockedSignals =
     [''adult'', ''porn'', ''sex'', ''nsfw'', ''gore'', ''violence'',
      ''malware'', ''phishing'', ''botnet'', ''spam'', ''hacking'']"

definition reviewSignals :: "string list" where
  "reviewSignals =
     [''games'', ''game'', ''social'', ''social networking'', ''chat'',
      ''streaming'', ''video'', ''entertainment'', ''proxy'', ''vpn'']"

definition goodSignals :: "string list" where
  "goodSignals =
     [''education'', ''educational'', ''reference'', ''academic'',
      ''business'', ''productivity'', ''search engines'']"

definition hasBlocked :: "string \<Rightarrow> bool" where
  "hasBlocked catString = some blockedSignals (\<lambda>s. includes_js catString s)"

definition hasReview :: "string \<Rightarrow> bool" where
  "hasReview catString = some reviewSignals (\<lambda>s. includes_js catString s)"

definition hasGood :: "string \<Rightarrow> bool" where
  "hasGood catString = some goodSignals (\<lambda>s. includes_js catString s)"

text \<open>
  The two reasons of the source that hold the character U+2011 (a non-breaking hyphen)
  spell it as its three UTF-8 bytes.
\<close>

definition unknownVerdict :: classification where
  "unknownVerdict =
     \<lparr>status = ''unknown'', label = ''Unsure'',
      reason = ''No strong policy signals from Talos/FortiGuard categories.''\<rparr>"

definition blockedVerdict :: classification where
  "blockedVerdict =
     \<lparr>status = ''blocked'', label = ''Blocked'',
      reason = ''Talos/FortiGuard category indicates adult, gore, malware, or similar high''
        @ [CHR 0xE2, CHR 0x80, CHR 0x91] @ ''risk content.''\<rparr>"

definition reviewVerdict :: classification where
  "reviewVerdict =
     \<lparr>status = ''review'', label = ''Needs review'',
      reason = ''Talos/FortiGuard category indicates games, social, streaming, or proxy''
        @ [CHR 0xE2, CHR 0x80, CHR 0x91] @ ''like content.''\<rparr>"

definition goodVerdict :: classification where
  "goodVerdict =
     \<lparr>status = ''good'', label = ''Good'',
      reason = ''Talos/FortiGuard category indicates educational, reference, or productivity content.''\<rparr>"

definition negativeScoreVerdict :: classification where
  "negativeScoreVerdict =
     \<lparr>status = ''blocked'', label = ''Blocked'',
      reason = ''Cisco Talos reputation score is negative (high risk).''\<rparr>"

text \<open>Lines 115 to 135: the three tests and the \<^verbatim>\<open>if / else if\<close> chain.\<close>

definition keywordVerdict :: "string \<Rightarrow> classification" where
  "keywordVerdict catString =
     (if hasBlocked catString then blockedVerdict
      else if hasReview catString then reviewVerdict
      else if hasGood catString then goodVerdict
      else unknownVerdict)"

text \<open>
  Line 138: \<^verbatim>\<open>talos && typeof talos.score === "number" && talos.score < 0\<close>.
\<close>

definition negativeScore :: "('a talosFragment_scheme) option \<Rightarrow> bool" where
  "negativeScore talos =
     (case talos of None \<Rightarrow> False | Some t \<Rightarrow> isNumber (score t) \<and> number_lt_zero (score t))"

definition catStringOf ::
  "builtins \<Rightarrow> ('a talosFragment_scheme) option \<Rightarrow> ('b fortiFragment_scheme) option
     \<Rightarrow> error + string" where
  "catStringOf js talos forti =
     andThen (collectCategories js talos forti)
       (\<lambda>categories. Inr (joinWith '' | '' categories))"

definition classifyFromEngines ::
  "builtins \<Rightarrow> jsval \<Rightarrow> ('a talosFragment_scheme) option
     \<Rightarrow> ('b fortiFragment_scheme) option \<Rightarrow> error + classification" where
  "classifyFromEngines js url talos forti =
     andThen (call_toLowerCase js url) (\<lambda>lowerUrl.
     andThen (catStringOf js talos forti) (\<lambda>catString.
     Inr (if negativeScore talos then negativeScoreVerdict else keywordVerdict catString)))"

section \<open>Configuration and the upstream clients\<close>

text \<open>
  Lines 16 to 19: each constant is \<^verbatim>\<open>process.env.X || default\<close>. A variable of the
  process environment is a string or \<^verbatim>\<open>undefined\<close> (\<open>None\<close>).
\<close>

record env =
  env_TALOS_API_URL :: "string option"
  env_TALOS_API_KEY :: "string option"
  env_FORTIGUARD_API_URL :: "string option"
  env_FORTIGUARD_API_KEY :: "string option"

definition envOr :: "string option \<Rightarrow> string \<Rightarrow> string" where
  "envOr v d = (case v of None \<Rightarrow> d | Some s \<Rightarrow> if s \<noteq> [] then s else d)"

definition TALOS_API_URL :: "env \<Rightarrow> string" where
  "TALOS_API_URL e = envOr (env_TALOS_API_URL e) ''https://<your-talos-endpoint>''"

definition TALOS_API_KEY :: "env \<Rightarrow> string" where
  "TALOS_API_KEY e = envOr (env_TALOS_API_KEY e) []"

definition FORTIGUARD_API_URL :: "env \<Rightarrow> string" where
  "FORTIGUARD_API_URL e = envOr (env_FORTIGUARD_API_URL e) ''https://<your-fortiguard-endpoint>''"

definition FORTIGUARD_API_KEY :: "env \<Rightarrow> string" where
  "FORTIGUARD_API_KEY e = envOr (env_FORTIGUARD_API_KEY e) []"

text \<open>
  The network. What \<^verbatim>\<open>fetch\<close> is called with is a \<open>request\<close>; \<open>req_body\<close> is the
  value handed to \<^verbatim>\<open>JSON.stringify\<close>. The call ends in one of three ways:
  \<^item> \<open>Refused\<close>: \<^verbatim>\<open>fetch\<close> rejects because the address is not a URL, before
    anything is sent;
  \<^item> \<open>Rejected\<close>: the request was sent and failed in transport;
  \<^item> \<open>Response ok status parsed\<close>: a response with its \<^verbatim>\<open>ok\<close> flag, its status and
    what \<^verbatim>\<open>res.json()\<close> gives (\<open>None\<close> when the body does not parse).
  What happens to a request is not the program's: it is the parameter \<open>net\<close>, a
  function of the requests sent so far and of the request, so the same address may be
  answered differently each time. The state the clients thread is the list of requests
  sent so far; console output is not modelled.
\<close>

record request =
  req_url :: string
  req_method :: string
  req_headers :: "(string \<times> string) list"
  req_body :: jsval

datatype fetchResult = Refused | Rejected | Response bool nat "jsval option"

type_synonym network = "request list \<Rightarrow> request \<Rightarrow> fetchResult"

text \<open>
  \<^verbatim>\<open>fetch\<close> parses the address as a URL first. In an address that starts with
  \<^verbatim>\<open>https://\<close> or \<^verbatim>\<open>http://\<close> the host and port are the text up to the first
  \<^verbatim>\<open>/\<close>, \<^verbatim>\<open>?\<close>, \<^verbatim>\<open>#\<close> or backslash, after the last \<^verbatim>\<open>@\<close> of it; a \<^verbatim>\<open><\<close> or
  a \<^verbatim>\<open>>\<close> there is a forbidden host code point and the address is not a URL. These
  addresses the model knows to be refused; which others are is left to \<open>net\<close>, which
  may answer \<open>Refused\<close>.
\<close>

definition hostAndPort :: "string \<Rightarrow> string" where
  "hostAndPort rest =
     (let authority =
        takeWhile (\<lambda>c. c \<noteq> CHR ''/'' \<and> c \<noteq> CHR ''?'' \<and> c \<noteq> CHR ''#'' \<and> c \<noteq> CHR 0x5C) rest
      in rev (takeWhile (\<lambda>c. c \<noteq> CHR ''@'') (rev authority)))"

definition forbiddenHost :: "string \<Rightarrow> bool" where
  "forbiddenHost address =
     (if startsWith address ''https://''
      then some (hostAndPort (drop 8 address)) (\<lambda>c. c = CHR ''<'' \<or> c = CHR ''>'')
      else if startsWith address ''http://''
      then some (hostAndPort (drop 7 address)) (\<lambda>c. c = CHR ''<'' \<or> c = CHR ''>'')
      else False)"

definition fetch :: "network \<Rightarrow> request \<Rightarrow> request list \<Rightarrow> fetchResult \<times> request list" where
  "fetch net req issued =
     (if forbiddenHost (req_url req) then (Refused, issued)
      else (case net issued req of
              Refused \<Rightarrow> (Refused, issued)
            | res \<Rightarrow> (res, issued @ [req])))"

text \<open>\<^verbatim>\<open>data.k1 || data.k2 || null\<close>\<close>

definition firstTruthy :: "jsval \<Rightarrow> string \<Rightarrow> string \<Rightarrow> error + jsval" where
  "firstTruthy data k1 k2 =
     andThen (getProp data k1) (\<lambda>a.
       if truthy a then Inr a
       else andThen (getProp data k2) (\<lambda>b. Inr (js_or b JNull)))"

text \<open>Lines 46 to 50 and 77 to 81: the object literal a client returns.\<close>

definition talosMapping :: "jsval \<Rightarrow> error + talosFragment" where
  "talosMapping data =
     andThen (firstTruthy data ''category'' ''threat_category'') (\<lambda>c.
     andThen (firstTruthy data ''score'' ''reputation_score'') (\<lambda>s.
     Inr \<lparr>category = c, raw = data, score = s\<rparr>))"

definition fortiMapping :: "jsval \<Rightarrow> error + fortiFragment" where
  "fortiMapping data =
     andThen (firstTruthy data ''category'' ''webfilter_category'') (\<lambda>c.
     andThen (firstTruthy data ''threat'' ''threat_level'') (\<lambda>t.
     Inr \<lparr>category = c, raw = data, threat = t\<rparr>))"

definition postRequest :: "string \<Rightarrow> string \<Rightarrow> jsval \<Rightarrow> request" where
  "postRequest apiUrl apiKey url =
     \<lparr>req_url = apiUrl, req_method = ''POST'',
      req_headers = (''Content-Type'', ''application/json'')
        # (if apiKey \<noteq> [] then [(''Authorization'', ''Bearer '' @ apiKey)] else []),
      req_body = JObj [(''url'', url)]\<rparr>"

text \<open>
  \<^verbatim>\<open>queryTalos\<close> and \<^verbatim>\<open>queryFortiGuard\<close>. Everything after the guard is inside
  \<^verbatim>\<open>try\<close>, and the \<^verbatim>\<open>catch\<close> returns \<^verbatim>\<open>null\<close>: a \<^verbatim>\<open>fetch\<close> that rejects, a
  body that does not parse and a \<^verbatim>\<open>TypeError\<close> of the mapping all end as \<open>None\<close>.
\<close>

definition queryTalos ::
  "env \<Rightarrow> network \<Rightarrow> jsval \<Rightarrow> request list \<Rightarrow> talosFragment option \<times> request list" where
  "queryTalos e net url issued =
     (if TALOS_API_URL e = [] then (None, issued)
      else
        let req = postRequest (TALOS_API_URL e) (TALOS_API_KEY e) url;
            (res, issued') = fetch net req issued
        in
        (case res of
           Refused \<Rightarrow> None
         | Rejected \<Rightarrow> None
         | Response ok st parsed \<Rightarrow>
             if \<not> ok then None
             else (case parsed of
                     None \<Rightarrow> None
                   | Some data \<Rightarrow>
                       (case talosMapping data of
                          Inl err \<Rightarrow> None
                        | Inr frag \<Rightarrow> Some frag)),
         issued'))"

definition queryFortiGuard ::
  "env \<Rightarrow> network \<Rightarrow> jsval \<Rightarrow> request list \<Rightarrow> fortiFragment option \<times> request list" where
  "queryFortiGuard e net url issued =
     (if FORTIGUARD_API_URL e = [] then (None, issued)
      else
        let req = postRequest (FORTIGUARD_API_URL e) (FORTIGUARD_API_KEY e) url;
            (res, issued') = fetch net req issued
        in
        (case res of
           Refused \<Rightarrow> None
         | Rejected \<Rightarrow> None
         | Response ok st parsed \<Rightarrow>
             if \<not> ok then None
             else (case parsed of
                     None \<Rightarrow> None
                   | Some data \<Rightarrow>
                       (case fortiMapping data of
                          Inl err \<Rightarrow> None
                        | Inr frag \<Rightarrow> Some frag)),
         issued'))"

section \<open>The route \<^verbatim>\<open>POST /api/scan\<close>\<close>

record scanResult = classification +
  url :: jsval
  talos :: "talosFragment option"
  fortiguard :: "fortiFragment option"

record response =
  httpStatus :: nat
  errorMessage :: "string option"
  results :: "scanResult list"

text \<open>
  The handler calls the two clients of the module. To say what its \<^verbatim>\<open>catch\<close> does
  when a client rejects, the loop is written over any two clients \<open>qT\<close> and \<open>qF\<close> that
  thread a state \<open>'w\<close> and either return a fragment (or \<^verbatim>\<open>null\<close>) or throw;
  \<open>scanHandler\<close> below puts the module's clients in. \<^verbatim>\<open>Promise.all\<close> starts both
  calls, \<^verbatim>\<open>queryTalos\<close> first, and rejects when one of them does.
\<close>

type_synonym ('w, 'f) client = "jsval \<Rightarrow> 'w \<Rightarrow> (error + 'f option) \<times> 'w"

definition errorResult :: "jsval \<Rightarrow> scanResult" where
  "errorResult u =
     \<lparr>status = ''unknown'', label = ''Unsure'', reason = ''Error querying Talos/FortiGuard.'',
      url = u, talos = None, fortiguard = None\<rparr>"

text \<open>The body of the \<^verbatim>\<open>for\<close> loop, lines 158 to 184: the entry pushed for one URL.\<close>

definition scanOne ::
  "('w, talosFragment) client \<Rightarrow> ('w, fortiFragment) client \<Rightarrow> builtins
     \<Rightarrow> jsval \<Rightarrow> 'w \<Rightarrow> scanResult \<times> 'w" where
  "scanOne qT qF js u w =
     (let (r1, w1) = qT u w; (r2, w2) = qF u w1 in
      (case andThen r1 (\<lambda>t. andThen r2 (\<lambda>fg.
              andThen (classifyFromEngines js u t fg) (\<lambda>verdict.
                Inr \<lparr>status = status verdict, label = label verdict, reason = reason verdict,
                     url = u, talos = t, fortiguard = fg\<rparr>))) of
         Inl err \<Rightarrow> errorResult u
       | Inr entry \<Rightarrow> entry,
       w2))"

fun scanLoop ::
  "('w, talosFragment) client \<Rightarrow> ('w, fortiFragment) client \<Rightarrow> builtins
     \<Rightarrow> jsval list \<Rightarrow> scanResult list \<Rightarrow> 'w \<Rightarrow> scanResult list \<times> 'w" where
  "scanLoop qT qF js [] rs w = (rs, w)"
| "scanLoop qT qF js (u # us) rs w =
     (let (r, w') = scanOne qT qF js u w
      in scanLoop qT qF js us (rs @ [r]) w')"

text \<open>
  The handler, from the value of \<^verbatim>\<open>req.body.urls\<close> (\<open>JUndefined\<close> when the body has
  no such property) to the response it sends.
\<close>

definition api_scan ::
  "('w, talosFragment) client \<Rightarrow> ('w, fortiFragment) client \<Rightarrow> builtins
     \<Rightarrow> jsval \<Rightarrow> 'w \<Rightarrow> response \<times> 'w" where
  "api_scan qT qF js bodyUrls w =
     (let urls = (case bodyUrls of JArr xs \<Rightarrow> xs | _ \<Rightarrow> []) in
      if urls = []
      then (\<lparr>httpStatus = 400, errorMessage = Some ''No URLs provided.'', results = []\<rparr>, w)
      else
        let (rs, w') = scanLoop qT qF js urls [] w
        in (\<lparr>httpStatus = 200, errorMessage = None, results = rs\<rparr>, w'))"

text \<open>A client of the module as a client of the loop: it never throws.\<close>

definition resolved :: "(jsval \<Rightarrow> 'w \<Rightarrow> 'f option \<times> 'w) \<Rightarrow> ('w, 'f) client" where
  "resolved q u w = (let (r, w') = q u w in (Inr r, w'))"

definition scanHandler ::
  "env \<Rightarrow> network \<Rightarrow> builtins \<Rightarrow> jsval \<Rightarrow> request list \<Rightarrow> response \<times> request list" where
  "scanHandler e net js bodyUrls issued =
     api_scan (resolved (queryTalos e net)) (resolved (queryFortiGuard e net))
       js bodyUrls issued"

section \<open>Definitions used to state the properties\<close>

text \<open>
  The category string as the specification words it: of the values given, those that
  are strings and not empty, in their order.
\<close>

fun presentStrings :: "jsval list \<Rightarrow> string list" where
  "presentStrings [] = []"
| "presentStrings (JStr s # vs) = (if s = [] then presentStrings vs else s # presentStrings vs)"
| "presentStrings (v # vs) = presentStrings vs"

text \<open>
  The mapping of a client as the specification words it: of the candidate values in
  their order, the first that counts as present, \<^verbatim>\<open>null\<close> when none does.
\<close>

fun firstWhere :: "(jsval \<Rightarrow> bool) \<Rightarrow> jsval list \<Rightarrow> jsval" where
  "firstWhere present [] = JNull"
| "firstWhere present (v # vs) = (if present v then v else firstWhere present vs)"

definition ownProp :: "jsval \<Rightarrow> string \<Rightarrow> jsval" where
  "ownProp data k =
     (case data of
        JObj kvs \<Rightarrow> (case map_of kvs k of None \<Rightarrow> JUndefined | Some v \<Rightarrow> v)
      | _ \<Rightarrow> JUndefined)"

text \<open>
  The examples pass these two functions; none of them converts a number to a string or
  lower-cases a string outside ASCII.
\<close>

definition exampleBuiltins :: builtins where
  "exampleBuiltins = \<lparr>numberToString = (\<lambda>n. []), lowerNonAscii = (\<lambda>s. s)\<rparr>"

text \<open>The values the specification's data model gives a category: a string or \<^verbatim>\<open>null\<close>.\<close>

fun stringOrNull :: "jsval \<Rightarrow> bool" where
  "stringOrNull JNull = True"
| "stringOrNull (JStr s) = True"
| "stringOrNull v = False"

text \<open>A value that is neither \<^verbatim>\<open>null\<close> nor \<^verbatim>\<open>undefined\<close>.\<close>

fun nonNull :: "jsval \<Rightarrow> bool" where
  "nonNull JNull = False"
| "nonNull JUndefined = False"
| "nonNull v = True"

text \<open>The process environment with none of the four variables set.\<close>

definition noEnv :: env where
  "noEnv = \<lparr>env_TALOS_API_URL = None, env_TALOS_API_KEY = None,
            env_FORTIGUARD_API_URL = None, env_FORTIGUARD_API_KEY = None\<rparr>"

section \<open>Substrings and the keyword tests\<close>

lemmas classify_defs =
  classifyFromEngines_def catStringOf_def collectCategories_def pushCategory_def
  andField_def andThen_def negativeScore_def toLowerCase_def isAscii_def lowerChar_def

lemmas signal_defs =
  hasBlocked_def hasReview_def hasGood_def blockedSignals_def reviewSignals_def goodSignals_def

lemma startsWith_iff: "startsWith t s \<longleftrightarrow> (\<exists>post. t = s @ post)"
  by (induction t s rule: startsWith.induct) auto

lemma includes_js_iff: "includes_js t s \<longleftrightarrow> (\<exists>pre post. t = pre @ s @ post)"
proof (induction t)
  case Nil
  then show ?case by auto
next
  case (Cons d t)
  show ?case
  proof
    assume "includes_js (d # t) s"
    then consider "startsWith (d # t) s" | "includes_js t s" by auto
    then show "\<exists>pre post. d # t = pre @ s @ post"
    proof cases
      case 1
      then obtain post where "d # t = s @ post" using startsWith_iff by blast
      then have "d # t = [] @ s @ post" by simp
      then show ?thesis by blast
    next
      case 2
      then obtain pre post where "t = pre @ s @ post" using Cons.IH by blast
      then have "d # t = (d # pre) @ s @ post" by simp
      then show ?thesis by blast
    qed
  next
    assume "\<exists>pre post. d # t = pre @ s @ post"
    then obtain pre post where eq: "d # t = pre @ s @ post" by blast
    show "includes_js (d # t) s"
    proof (cases pre)
      case Nil
      with eq have "startsWith (d # t) s" using startsWith_iff by auto
      then show ?thesis by simp
    next
      case (Cons a pre')
      with eq have "t = pre' @ s @ post" by simp
      then have "includes_js t s" using Cons.IH by blast
      then show ?thesis by simp
    qed
  qed
qed

lemma some_iff: "some xs p \<longleftrightarrow> (\<exists>x\<in>set xs. p x)"
  by (induction xs) auto

section \<open>The classifier\<close>

text \<open>
  On a URL that is a string the only step that can throw is the conversion of a
  category to a string.
\<close>

lemma classify_string_url:
  "classifyFromEngines js (JStr u) t f =
     andThen (catStringOf js t f)
       (\<lambda>cs. Inr (if negativeScore t then negativeScoreVerdict else keywordVerdict cs))"
  by (simp add: classifyFromEngines_def andThen_def)

text \<open>
  Claim C1, as amended. Take a URL string and two fragments whose category string
  \<open>cs\<close> is built. If \<open>cs\<close> matches a blocked keyword, the status is \<^verbatim>\<open>blocked\<close> and
  the label \<^verbatim>\<open>Blocked\<close>, whatever else matches. If moreover the Talos score is not a
  negative number, the result is the fixed verdict of the first class that matches, in
  the order blocked, review, good: the blocked verdict when a blocked keyword matches;
  the review verdict when none does and a review keyword matches, whether or not a good
  keyword matches; the good verdict when only a good keyword matches. Each verdict holds
  the status, label and reason of its branch.
\<close>

theorem keyword_priority:
  assumes "catStringOf js t f = Inr cs"
  shows "(hasBlocked cs \<longrightarrow>
            (\<exists>v. classifyFromEngines js (JStr u) t f = Inr v
                 \<and> status v = ''blocked'' \<and> label v = ''Blocked''))
       \<and> (\<not> negativeScore t \<longrightarrow>
            (hasBlocked cs \<longrightarrow> classifyFromEngines js (JStr u) t f = Inr blockedVerdict)
          \<and> (\<not> hasBlocked cs \<and> hasReview cs \<longrightarrow>
               classifyFromEngines js (JStr u) t f = Inr reviewVerdict)
          \<and> (\<not> hasBlocked cs \<and> \<not> hasReview cs \<and> hasGood cs \<longrightarrow>
               classifyFromEngines js (JStr u) t f = Inr goodVerdict))
       \<and> status blockedVerdict = ''blocked'' \<and> label blockedVerdict = ''Blocked''
       \<and> status reviewVerdict = ''review'' \<and> label reviewVerdict = ''Needs review''
       \<and> status goodVerdict = ''good'' \<and> label goodVerdict = ''Good''"
  using assms
  by (simp add: classify_string_url andThen_def keywordVerdict_def blockedVerdict_def
      reviewVerdict_def goodVerdict_def negativeScoreVerdict_def)

theorem keyword_priority_witness:
  "classifyFromEngines exampleBuiltins (JStr ''http://example.com'')
     (Some \<lparr>category = JStr ''Adult Education'', raw = JNull, score = JNull\<rparr>)
     (None :: fortiFragment option) = Inr blockedVerdict
   \<and> classifyFromEngines exampleBuiltins (JStr ''http://example.com'')
     (Some \<lparr>category = JStr ''Educational Games'', raw = JNull, score = JNull\<rparr>)
     (None :: fortiFragment option) = Inr reviewVerdict
   \<and> classifyFromEngines exampleBuiltins (JStr ''http://example.com'')
     (Some \<lparr>category = JStr ''Business/Economy'', raw = JNull, score = JNull\<rparr>)
     (None :: fortiFragment option) = Inr goodVerdict
   \<and> hasBlocked ''adult education'' \<and> hasGood ''adult education''
   \<and> hasReview ''educational games'' \<and> hasGood ''educational games''"
proof -
  let ?t1 = "Some \<lparr>category = JStr ''Adult Education'', raw = JNull, score = JNull\<rparr>"
  let ?t2 = "Some \<lparr>category = JStr ''Educational Games'', raw = JNull, score = JNull\<rparr>"
  let ?t3 = "Some \<lparr>category = JStr ''Business/Economy'', raw = JNull, score = JNull\<rparr>"
  let ?f = "None :: fortiFragment option"
  have c1: "catStringOf exampleBuiltins ?t1 ?f = Inr ''adult education''"
    by (simp add: classify_defs)
  have c2: "catStringOf exampleBuiltins ?t2 ?f = Inr ''educational games''"
    by (simp add: classify_defs)
  have c3: "catStringOf exampleBuiltins ?t3 ?f = Inr ''business/economy''"
    by (simp add: classify_defs)
  have s1: "hasBlocked ''adult education''" "hasGood ''adult education''"
    by (simp_all add: signal_defs)
  have s2: "\<not> hasBlocked ''educational games''" "hasReview ''educational games''"
      "hasGood ''educational games''"
    by (simp_all add: signal_defs)
  have s3: "\<not> hasBlocked ''business/economy''" "\<not> hasReview ''business/economy''"
      "hasGood ''business/economy''"
    by (simp_all add: signal_defs)
  have n: "\<not> negativeScore ?t1" "\<not> negativeScore ?t2" "\<not> negativeScore ?t3"
    by (simp_all add: negativeScore_def)
  have r1: "classifyFromEngines exampleBuiltins (JStr ''http://example.com'') ?t1 ?f
      = Inr blockedVerdict"
    using keyword_priority [OF c1, of "''http://example.com''"] s1 n(1) by simp
  have r2: "classifyFromEngines exampleBuiltins (JStr ''http://example.com'') ?t2 ?f
      = Inr reviewVerdict"
    using keyword_priority [OF c2, of "''http://example.com''"] s2 n(2) by simp
  have r3: "classifyFromEngines exampleBuiltins (JStr ''http://example.com'') ?t3 ?f
      = Inr goodVerdict"
    using keyword_priority [OF c3, of "''http://example.com''"] s3 n(3) by simp
  show ?thesis
    using r1 r2 r3 s1 s2 by simp
qed

text \<open>
  Claim C1 as it is stated fails where the score test fires: the category
  \<^verbatim>\<open>Games\<close> matches a review keyword and no blocked one, and with a Talos score of
  \<open>-1\<close> the classifier returns \<^verbatim>\<open>blocked\<close> with the reason of the score test, not
  \<^verbatim>\<open>review\<close>.
\<close>

theorem keyword_priority_counterexample:
  "catStringOf exampleBuiltins
     (Some \<lparr>category = JStr ''Games'', raw = JNull, score = JNum (Finite (- 1))\<rparr>)
     (None :: fortiFragment option) = Inr ''games''
   \<and> \<not> hasBlocked ''games'' \<and> hasReview ''games''
   \<and> classifyFromEngines exampleBuiltins (JStr ''http://example.com'')
       (Some \<lparr>category = JStr ''Games'', raw = JNull, score = JNum (Finite (- 1))\<rparr>)
       (None :: fortiFragment option)
     = Inr \<lparr>status = ''blocked'', label = ''Blocked'',
            reason = ''Cisco Talos reputation score is negative (high risk).''\<rparr>"
  by (simp add: classify_defs signal_defs negativeScoreVerdict_def)

text \<open>
  Claim C2. The score test fires exactly when the Talos fragment is not \<^verbatim>\<open>null\<close> and
  its score is a number below zero; the FortiGuard fragment plays no part in it. For a
  URL string and fragments whose category string \<open>cs\<close> is built, the classifier returns
  the verdict of the score test, of status \<^verbatim>\<open>blocked\<close>, when the test fires, whatever
  the keywords decided, and the verdict of the keywords otherwise. It throws only when
  building the category string throws.
\<close>

theorem negative_score_override:
  "(negativeScore t \<longleftrightarrow> (\<exists>x n. t = Some x \<and> score x = JNum n \<and> lt_zero n))
   \<and> (\<forall>cs. catStringOf js t f = Inr cs \<and> negativeScore t \<longrightarrow>
          classifyFromEngines js (JStr u) t f = Inr negativeScoreVerdict)
   \<and> (\<forall>cs. catStringOf js t f = Inr cs \<and> \<not> negativeScore t \<longrightarrow>
          classifyFromEngines js (JStr u) t f = Inr (keywordVerdict cs))
   \<and> (\<forall>e. catStringOf js t f = Inl e \<longrightarrow> classifyFromEngines js (JStr u) t f = Inl e)
   \<and> status negativeScoreVerdict = ''blocked''"
proof -
  have "negativeScore t \<longleftrightarrow> (\<exists>x n. t = Some x \<and> score x = JNum n \<and> lt_zero n)"
  proof (cases t)
    case None
    then show ?thesis by (simp add: negativeScore_def)
  next
    case (Some x)
    then show ?thesis by (cases "score x") (simp_all add: negativeScore_def)
  qed
  moreover have "(\<forall>cs. catStringOf js t f = Inr cs \<and> negativeScore t \<longrightarrow>
          classifyFromEngines js (JStr u) t f = Inr negativeScoreVerdict)
   \<and> (\<forall>cs. catStringOf js t f = Inr cs \<and> \<not> negativeScore t \<longrightarrow>
          classifyFromEngines js (JStr u) t f = Inr (keywordVerdict cs))
   \<and> (\<forall>e. catStringOf js t f = Inl e \<longrightarrow> classifyFromEngines js (JStr u) t f = Inl e)
   \<and> status negativeScoreVerdict = ''blocked''"
    by (simp add: classify_string_url andThen_def negativeScoreVerdict_def)
  ultimately show ?thesis by blast
qed

text \<open>
  A score of \<open>-1\<close> overrides the good verdict of \<^verbatim>\<open>Education\<close>; a score of \<open>0\<close>, with
  a FortiGuard body that holds a score of \<open>-9\<close>, and the string \<^verbatim>\<open>-5\<close> leave it.
\<close>

theorem negative_score_override_witness:
  "classifyFromEngines exampleBuiltins (JStr ''http://example.com'')
     (Some \<lparr>category = JStr ''Education'', raw = JNull, score = JNum (Finite (- 1))\<rparr>)
     (None :: fortiFragment option) = Inr negativeScoreVerdict
   \<and> classifyFromEngines exampleBuiltins (JStr ''http://example.com'')
     (Some \<lparr>category = JStr ''Education'', raw = JNull, score = JNum (Finite 0)\<rparr>)
     (Some \<lparr>category = JNull, raw = JObj [(''score'', JNum (Finite (- 9)))], threat = JNull\<rparr>)
     = Inr (keywordVerdict ''education'')
   \<and> classifyFromEngines exampleBuiltins (JStr ''http://example.com'')
     (Some \<lparr>category = JStr ''Education'', raw = JNull, score = JStr ''-5''\<rparr>)
     (None :: fortiFragment option) = Inr (keywordVerdict ''education'')
   \<and> keywordVerdict ''education'' = goodVerdict"
proof -
  let ?t1 = "Some \<lparr>category = JStr ''Education'', raw = JNull, score = JNum (Finite (- 1))\<rparr>"
  let ?t2 = "Some \<lparr>category = JStr ''Education'', raw = JNull, score = JNum (Finite 0)\<rparr>"
  let ?t3 = "Some \<lparr>category = JStr ''Education'', raw = JNull, score = JStr ''-5''\<rparr>"
  let ?f = "None :: fortiFragment option"
  let ?f2 = "Some \<lparr>category = JNull, raw = JObj [(''score'', JNum (Finite (- 9)))],
    threat = JNull\<rparr>"
  have c1: "catStringOf exampleBuiltins ?t1 ?f = Inr ''education''"
    by (simp add: classify_defs)
  have c2: "catStringOf exampleBuiltins ?t2 ?f2 = Inr ''education''"
    by (simp add: classify_defs)
  have c3: "catStringOf exampleBuiltins ?t3 ?f = Inr ''education''"
    by (simp add: classify_defs)
  have n: "negativeScore ?t1" "\<not> negativeScore ?t2" "\<not> negativeScore ?t3"
    by (simp_all add: negativeScore_def)
  have k: "keywordVerdict ''education'' = goodVerdict"
    by (simp add: keywordVerdict_def signal_defs)
  have r1: "classifyFromEngines exampleBuiltins (JStr ''http://example.com'') ?t1 ?f
      = Inr negativeScoreVerdict"
    using negative_score_override [of ?t1 exampleBuiltins ?f "''http://example.com''"] c1 n(1)
    by simp
  have r2: "classifyFromEngines exampleBuiltins (JStr ''http://example.com'') ?t2 ?f2
      = Inr (keywordVerdict ''education'')"
    using negative_score_override [of ?t2 exampleBuiltins ?f2 "''http://example.com''"] c2 n(2)
    by simp
  have r3: "classifyFromEngines exampleBuiltins (JStr ''http://example.com'') ?t3 ?f
      = Inr (keywordVerdict ''education'')"
    using negative_score_override [of ?t3 exampleBuiltins ?f "''http://example.com''"] c3 n(3)
    by simp
  show ?thesis
    using r1 r2 r3 k by simp
qed

lemma presentStrings_Cons: "presentStrings (v # vs) = presentStrings [v] @ presentStrings vs"
  by (cases v) simp_all

lemma pushCategory_stringOrNull:
  "stringOrNull v \<Longrightarrow>
   pushCategory js v cats = Inr (cats @ map (toLowerCase js) (presentStrings [v]))"
  by (cases v) (simp_all add: pushCategory_def andThen_def)

lemma lowerChar_upper:
  "map lowerChar ''ABCDEFGHIJKLMNOPQRSTUVWXYZ'' = ''abcdefghijklmnopqrstuvwxyz''"
  by (simp add: lowerChar_def)

lemma lowerChar_other: "c \<notin> set ''ABCDEFGHIJKLMNOPQRSTUVWXYZ'' \<Longrightarrow> lowerChar c = c"
  by (simp add: lowerChar_def)

lemma toLowerCase_ascii: "isAscii s \<Longrightarrow> toLowerCase js s = map lowerChar s"
  by (simp add: toLowerCase_def)

lemma keywords_lower_case:
  "\<forall>k\<in>set (blockedSignals @ reviewSignals @ goodSignals). toLowerCase js k = k"
  by (simp add: signal_defs toLowerCase_def isAscii_def lowerChar_def)

text \<open>
  Claim C3, as amended. When the Talos category, the FortiGuard category and the
  FortiGuard threat are strings or \<^verbatim>\<open>null\<close> (a \<^verbatim>\<open>null\<close> fragment counting as
  \<^verbatim>\<open>null\<close> fields), the string the keywords are tested against is made of those
  three values in that order, without the \<^verbatim>\<open>null\<close> and the empty ones, each in lower
  case, joined by a space, a vertical bar and a space. Lower case is that of
  \<^verbatim>\<open>toLowerCase\<close>: on ASCII text each of \<^verbatim>\<open>A\<close> to \<^verbatim>\<open>Z\<close> becomes the letter of
  \<^verbatim>\<open>a\<close> to \<^verbatim>\<open>z\<close> at its place and every other character stays. A keyword class
  matches when one of its keywords is a substring of that string, and every keyword is
  its own lower case, so that the case of a category does not matter.
\<close>

theorem category_string:
  assumes "stringOrNull (andField t category)" "stringOrNull (andField f category)"
    "stringOrNull (andField f threat)"
  shows "catStringOf js t f
           = Inr (joinWith '' | '' (map (toLowerCase js)
               (presentStrings [andField t category, andField f category, andField f threat])))
       \<and> (\<forall>s. isAscii s \<longrightarrow> toLowerCase js s = map lowerChar s)
       \<and> map lowerChar ''ABCDEFGHIJKLMNOPQRSTUVWXYZ'' = ''abcdefghijklmnopqrstuvwxyz''
       \<and> (\<forall>c. c \<notin> set ''ABCDEFGHIJKLMNOPQRSTUVWXYZ'' \<longrightarrow> lowerChar c = c)
       \<and> (\<forall>cs. hasBlocked cs \<longleftrightarrow> (\<exists>k\<in>set blockedSignals. \<exists>pre post. cs = pre @ k @ post))
       \<and> (\<forall>cs. hasReview cs \<longleftrightarrow> (\<exists>k\<in>set reviewSignals. \<exists>pre post. cs = pre @ k @ post))
       \<and> (\<forall>cs. hasGood cs \<longleftrightarrow> (\<exists>k\<in>set goodSignals. \<exists>pre post. cs = pre @ k @ post))
       \<and> (\<forall>k\<in>set (blockedSignals @ reviewSignals @ goodSignals). toLowerCase js k = k)"
proof -
  have "collectCategories js t f
      = Inr (map (toLowerCase js)
          (presentStrings [andField t category, andField f category, andField f threat]))"
    using assms
    by (simp add: collectCategories_def pushCategory_stringOrNull andThen_def
        presentStrings_Cons [of "andField t category" "[andField f category, andField f threat]"]
        presentStrings_Cons [of "andField f category" "[andField f threat]"])
  then have built: "catStringOf js t f
           = Inr (joinWith '' | '' (map (toLowerCase js)
               (presentStrings [andField t category, andField f category, andField f threat])))"
    by (simp add: catStringOf_def andThen_def)
  have l1: "\<forall>s. isAscii s \<longrightarrow> toLowerCase js s = map lowerChar s"
    by (simp add: toLowerCase_ascii)
  have l2: "map lowerChar ''ABCDEFGHIJKLMNOPQRSTUVWXYZ'' = ''abcdefghijklmnopqrstuvwxyz''"
    by (rule lowerChar_upper)
  have l3: "\<forall>c. c \<notin> set ''ABCDEFGHIJKLMNOPQRSTUVWXYZ'' \<longrightarrow> lowerChar c = c"
    using lowerChar_other by blast
  have b: "\<forall>cs. hasBlocked cs \<longleftrightarrow> (\<exists>k\<in>set blockedSignals. \<exists>pre post. cs = pre @ k @ post)"
    unfolding hasBlocked_def some_iff includes_js_iff by simp
  have r: "\<forall>cs. hasReview cs \<longleftrightarrow> (\<exists>k\<in>set reviewSignals. \<exists>pre post. cs = pre @ k @ post)"
    unfolding hasReview_def some_iff includes_js_iff by simp
  have g: "\<forall>cs. hasGood cs \<longleftrightarrow> (\<exists>k\<in>set goodSignals. \<exists>pre post. cs = pre @ k @ post)"
    unfolding hasGood_def some_iff includes_js_iff by simp
  show ?thesis
    using built l1 l2 l3 b r g keywords_lower_case [of js]
    by - (intro conjI; assumption)
qed

text \<open>
  The categories \<^verbatim>\<open>Search\<close>, the empty string and \<^verbatim>\<open>Low Risk\<close> give
  \<^verbatim>\<open>search | low risk\<close>.
\<close>

theorem category_string_witness:
  "catStringOf exampleBuiltins
     (Some \<lparr>category = JStr ''Search'', raw = JNull, score = JNull\<rparr>)
     (Some \<lparr>category = JStr [], raw = JNull, threat = JStr ''Low Risk''\<rparr>)
     = Inr ''search | low risk''"
proof -
  let ?t = "Some \<lparr>category = JStr ''Search'', raw = JNull, score = JNull\<rparr>"
  let ?f = "Some \<lparr>category = JStr [], raw = JNull, threat = JStr ''Low Risk''\<rparr>"
  have h: "stringOrNull (andField ?t category)" "stringOrNull (andField ?f category)"
    "stringOrNull (andField ?f threat)"
    by (simp_all add: andField_def)
  have "catStringOf exampleBuiltins ?t ?f
      = Inr (joinWith '' | '' (map (toLowerCase exampleBuiltins)
          (presentStrings [andField ?t category, andField ?f category, andField ?f threat])))"
    using category_string [OF h, of exampleBuiltins] by (rule conjunct1)
  then show ?thesis
    by (simp add: andField_def toLowerCase_def isAscii_def lowerChar_def)
qed

text \<open>
  Claim C3 as it is stated fails on the separator. The categories \<^verbatim>\<open>Search\<close> and
  \<^verbatim>\<open>Engines\<close> give \<^verbatim>\<open>search | engines\<close>, not \<^verbatim>\<open>search engines\<close>: joined by a single
  space they would match the good keyword \<^verbatim>\<open>search engines\<close>, and the classifier
  returns the default instead.
\<close>

theorem category_string_counterexample:
  "catStringOf exampleBuiltins
     (Some \<lparr>category = JStr ''Search'', raw = JNull, score = JNull\<rparr>)
     (Some \<lparr>category = JStr ''Engines'', raw = JNull, threat = JNull\<rparr>)
     = Inr ''search | engines''
   \<and> hasGood ''search engines'' \<and> \<not> hasGood ''search | engines''
   \<and> classifyFromEngines exampleBuiltins (JStr ''http://example.com'')
     (Some \<lparr>category = JStr ''Search'', raw = JNull, score = JNull\<rparr>)
     (Some \<lparr>category = JStr ''Engines'', raw = JNull, threat = JNull\<rparr>)
     = Inr unknownVerdict"
  by (simp add: classify_defs signal_defs keywordVerdict_def)

text \<open>
  Claim C4. For every URL string, the classifier on two \<^verbatim>\<open>null\<close> fragments returns
  the default: status \<^verbatim>\<open>unknown\<close>, label \<^verbatim>\<open>Unsure\<close>. No keyword can match the
  empty category string and the score test needs a Talos fragment.
\<close>

theorem classify_null_fragments:
  "classifyFromEngines js (JStr u) None None = Inr unknownVerdict
   \<and> status unknownVerdict = ''unknown'' \<and> label unknownVerdict = ''Unsure''"
  by (simp add: classify_defs signal_defs keywordVerdict_def unknownVerdict_def)

theorem classify_null_fragments_witness:
  "classifyFromEngines exampleBuiltins (JStr ''http://example.com'')
     (None :: talosFragment option) (None :: fortiFragment option)
   = Inr \<lparr>status = ''unknown'', label = ''Unsure'',
          reason = ''No strong policy signals from Talos/FortiGuard categories.''\<rparr>"
  using classify_null_fragments [of exampleBuiltins "''http://example.com''"]
  by (simp add: unknownVerdict_def)

text \<open>
  Claim C10. The classification does not depend on the URL: for any two URL strings and
  the same two fragments the classifier returns the same result (the same verdict, or
  the same error).
\<close>

theorem classify_url_independent:
  "classifyFromEngines js (JStr u1) t f = classifyFromEngines js (JStr u2) t f"
  by (simp add: classify_string_url)

theorem classify_url_independent_witness:
  "classifyFromEngines exampleBuiltins (JStr ''http://adult.example'')
     (Some \<lparr>category = JStr ''Education'', raw = JNull, score = JNull\<rparr>)
     (None :: fortiFragment option)
   = classifyFromEngines exampleBuiltins (JStr ''http://games.example'')
     (Some \<lparr>category = JStr ''Education'', raw = JNull, score = JNull\<rparr>)
     (None :: fortiFragment option)"
  using classify_url_independent
    [of exampleBuiltins "''http://adult.example''"
      "Some \<lparr>category = JStr ''Education'', raw = JNull, score = JNull\<rparr>"
      "None :: fortiFragment option" "''http://games.example''"]
  by simp

section \<open>The upstream clients\<close>

text \<open>
  Each constant of the configuration is the variable of the environment or, when that
  is unset or empty, its placeholder: it is never empty.
\<close>

lemma TALOS_API_URL_nonempty: "TALOS_API_URL e \<noteq> []"
  by (simp add: TALOS_API_URL_def envOr_def split: option.splits)

lemma FORTIGUARD_API_URL_nonempty: "FORTIGUARD_API_URL e \<noteq> []"
  by (simp add: FORTIGUARD_API_URL_def envOr_def split: option.splits)

lemma placeholders_forbidden:
  "forbiddenHost ''https://<your-talos-endpoint>''"
  "forbiddenHost ''https://<your-fortiguard-endpoint>''"
  by (simp_all add: forbiddenHost_def hostAndPort_def)

text \<open>
  Claim C8. A client whose endpoint is unconfigured, its variable unset, empty or equal
  to the placeholder, returns \<^verbatim>\<open>null\<close> and sends no request, for every URL, network
  and history: the list of requests sent is unchanged. The guard
  \<^verbatim>\<open>if (!TALOS_API_URL) return null\<close> plays no part in this, since the constant is
  never empty: the client calls \<^verbatim>\<open>fetch\<close> with the placeholder, whose host holds
  \<^verbatim>\<open><\<close> and \<^verbatim>\<open>>\<close>; \<^verbatim>\<open>fetch\<close> refuses it before anything is sent, and the
  \<^verbatim>\<open>catch\<close> of the client returns \<^verbatim>\<open>null\<close>.
\<close>

theorem unconfigured_client_null:
  "(env_TALOS_API_URL e = None \<or> env_TALOS_API_URL e = Some []
      \<or> env_TALOS_API_URL e = Some ''https://<your-talos-endpoint>''
    \<longrightarrow> queryTalos e net u issued = (None, issued))
   \<and> (env_FORTIGUARD_API_URL e = None \<or> env_FORTIGUARD_API_URL e = Some []
      \<or> env_FORTIGUARD_API_URL e = Some ''https://<your-fortiguard-endpoint>''
    \<longrightarrow> queryFortiGuard e net u issued = (None, issued))"
proof -
  have t: "queryTalos e net u issued = (None, issued)"
    if "TALOS_API_URL e = ''https://<your-talos-endpoint>''"
    using that placeholders_forbidden(1)
    by (simp add: queryTalos_def fetch_def postRequest_def)
  have f: "queryFortiGuard e net u issued = (None, issued)"
    if "FORTIGUARD_API_URL e = ''https://<your-fortiguard-endpoint>''"
    using that placeholders_forbidden(2)
    by (simp add: queryFortiGuard_def fetch_def postRequest_def)
  have "TALOS_API_URL e = ''https://<your-talos-endpoint>''"
    if "env_TALOS_API_URL e = None \<or> env_TALOS_API_URL e = Some []
      \<or> env_TALOS_API_URL e = Some ''https://<your-talos-endpoint>''"
    using that by (auto simp: TALOS_API_URL_def envOr_def)
  moreover have "FORTIGUARD_API_URL e = ''https://<your-fortiguard-endpoint>''"
    if "env_FORTIGUARD_API_URL e = None \<or> env_FORTIGUARD_API_URL e = Some []
      \<or> env_FORTIGUARD_API_URL e = Some ''https://<your-fortiguard-endpoint>''"
    using that by (auto simp: FORTIGUARD_API_URL_def envOr_def)
  ultimately show ?thesis using t f by blast
qed

text \<open>
  No variable set, a network that would answer every request with a category: Talos
  returns \<^verbatim>\<open>null\<close> and nothing is sent; the same for FortiGuard with its variable
  set to the empty string.
\<close>

theorem unconfigured_client_null_witness:
  "queryTalos noEnv
     (\<lambda>issued req. Response True 200 (Some (JObj [(''category'', JStr ''Games'')])))
     (JStr ''http://example.com'') []
     = (None, [])
   \<and> queryFortiGuard (noEnv\<lparr>env_FORTIGUARD_API_URL := Some []\<rparr>)
     (\<lambda>issued req. Response True 200 (Some (JObj [(''category'', JStr ''Games'')])))
     (JStr ''http://example.com'') []
     = (None, [])"
  using unconfigured_client_null [of noEnv
      "\<lambda>issued req. Response True 200 (Some (JObj [(''category'', JStr ''Games'')]))"
      "JStr ''http://example.com''" "[]"]
    unconfigured_client_null [of "noEnv\<lparr>env_FORTIGUARD_API_URL := Some []\<rparr>"
      "\<lambda>issued req. Response True 200 (Some (JObj [(''category'', JStr ''Games'')]))"
      "JStr ''http://example.com''" "[]"]
  by (simp add: noEnv_def)

text \<open>
  Reading a property: where the body is neither \<^verbatim>\<open>null\<close> nor \<^verbatim>\<open>undefined\<close> the
  read gives the own property or \<^verbatim>\<open>undefined\<close>; elsewhere it throws, and the
  client's \<^verbatim>\<open>catch\<close> turns that into \<^verbatim>\<open>null\<close>.
\<close>

lemma getProp_ownProp:
  "data \<noteq> JNull \<Longrightarrow> data \<noteq> JUndefined \<Longrightarrow> getProp data k = Inr (ownProp data k)"
  by (cases data) (simp_all add: ownProp_def)

lemma firstTruthy_firstWhere:
  "data \<noteq> JNull \<Longrightarrow> data \<noteq> JUndefined \<Longrightarrow>
   firstTruthy data k1 k2 = Inr (firstWhere truthy [ownProp data k1, ownProp data k2])"
  by (simp add: firstTruthy_def getProp_ownProp andThen_def js_or_def)

lemma mapping_null:
  "data = JNull \<or> data = JUndefined \<Longrightarrow>
   talosMapping data = Inl TypeError \<and> fortiMapping data = Inl TypeError"
  by (auto simp: talosMapping_def fortiMapping_def firstTruthy_def andThen_def)

text \<open>
  Claim C9, as amended. For a parsed body that is not \<^verbatim>\<open>null\<close>, the mapping takes
  for each field the first candidate that is truthy, in the order primary key, fallback
  key, and \<^verbatim>\<open>null\<close> when neither is: the category from \<^verbatim>\<open>category\<close> then
  \<^verbatim>\<open>threat_category\<close> (Talos) or \<^verbatim>\<open>webfilter_category\<close> (FortiGuard), the score
  from \<^verbatim>\<open>score\<close> then \<^verbatim>\<open>reputation_score\<close>, the threat from \<^verbatim>\<open>threat\<close> then
  \<^verbatim>\<open>threat_level\<close>; the body is kept unchanged as \<^verbatim>\<open>raw\<close>. On a successful
  response the client returns that fragment. A body that parses to \<^verbatim>\<open>null\<close> makes
  the mapping throw, and the client returns \<^verbatim>\<open>null\<close>.
\<close>

theorem client_field_mapping:
  "(data \<noteq> JNull \<and> data \<noteq> JUndefined \<longrightarrow>
      talosMapping data
        = Inr \<lparr>category = firstWhere truthy
                  [ownProp data ''category'', ownProp data ''threat_category''],
               raw = data,
               score = firstWhere truthy
                  [ownProp data ''score'', ownProp data ''reputation_score'']\<rparr>
    \<and> fortiMapping data
        = Inr \<lparr>category = firstWhere truthy
                  [ownProp data ''category'', ownProp data ''webfilter_category''],
               raw = data,
               threat = firstWhere truthy
                  [ownProp data ''threat'', ownProp data ''threat_level'']\<rparr>)
   \<and> (fst (fetch net (postRequest (TALOS_API_URL e) (TALOS_API_KEY e) u) issued)
         = Response True st (Some data) \<longrightarrow>
       fst (queryTalos e net u issued)
         = (case talosMapping data of Inl err \<Rightarrow> None | Inr frag \<Rightarrow> Some frag))
   \<and> (fst (fetch net (postRequest (FORTIGUARD_API_URL e) (FORTIGUARD_API_KEY e) u) issued)
         = Response True st (Some data) \<longrightarrow>
       fst (queryFortiGuard e net u issued)
         = (case fortiMapping data of Inl err \<Rightarrow> None | Inr frag \<Rightarrow> Some frag))
   \<and> (data = JNull \<or> data = JUndefined \<longrightarrow>
       talosMapping data = Inl TypeError \<and> fortiMapping data = Inl TypeError)"
proof -
  have a: "data \<noteq> JNull \<and> data \<noteq> JUndefined \<longrightarrow>
      talosMapping data
        = Inr \<lparr>category = firstWhere truthy
                  [ownProp data ''category'', ownProp data ''threat_category''],
               raw = data,
               score = firstWhere truthy
                  [ownProp data ''score'', ownProp data ''reputation_score'']\<rparr>
    \<and> fortiMapping data
        = Inr \<lparr>category = firstWhere truthy
                  [ownProp data ''category'', ownProp data ''webfilter_category''],
               raw = data,
               threat = firstWhere truthy
                  [ownProp data ''threat'', ownProp data ''threat_level'']\<rparr>"
    by (simp add: talosMapping_def fortiMapping_def firstTruthy_firstWhere andThen_def)
  have nonempty: "TALOS_API_URL e \<noteq> []" "FORTIGUARD_API_URL e \<noteq> []"
    by (simp_all add: TALOS_API_URL_def FORTIGUARD_API_URL_def envOr_def split: option.splits)
  have b: "fst (fetch net (postRequest (TALOS_API_URL e) (TALOS_API_KEY e) u) issued)
         = Response True st (Some data) \<longrightarrow>
       fst (queryTalos e net u issued)
         = (case talosMapping data of Inl err \<Rightarrow> None | Inr frag \<Rightarrow> Some frag)"
    using nonempty by (simp add: queryTalos_def Let_def split: prod.splits sum.splits)
  have c: "fst (fetch net (postRequest (FORTIGUARD_API_URL e) (FORTIGUARD_API_KEY e) u) issued)
         = Response True st (Some data) \<longrightarrow>
       fst (queryFortiGuard e net u issued)
         = (case fortiMapping data of Inl err \<Rightarrow> None | Inr frag \<Rightarrow> Some frag)"
    using nonempty by (simp add: queryFortiGuard_def Let_def split: prod.splits sum.splits)
  show ?thesis using a b c mapping_null [of data] by blast
qed

theorem client_field_mapping_witness:
  "talosMapping (JObj [(''category'', JStr []), (''threat_category'', JStr ''Phishing''),
                       (''reputation_score'', JNum (Finite (- 3)))])
     = Inr \<lparr>category = JStr ''Phishing'',
            raw = JObj [(''category'', JStr []), (''threat_category'', JStr ''Phishing''),
                        (''reputation_score'', JNum (Finite (- 3)))],
            score = JNum (Finite (- 3))\<rparr>
   \<and> fst (queryFortiGuard
         (noEnv\<lparr>env_FORTIGUARD_API_URL := Some ''https://fortiguard.example/lookup''\<rparr>)
         (\<lambda>issued req. Response True 200
            (Some (JObj [(''webfilter_category'', JStr ''Games''), (''threat'', JNum (Finite 0))])))
         (JStr ''http://example.com'') [])
     = Some \<lparr>category = JStr ''Games'',
             raw = JObj [(''webfilter_category'', JStr ''Games''), (''threat'', JNum (Finite 0))],
             threat = JNull\<rparr>
   \<and> fst (queryTalos (noEnv\<lparr>env_TALOS_API_URL := Some ''https://talos.example/lookup''\<rparr>)
         (\<lambda>issued req. Response True 200 (Some JNull))
         (JStr ''http://example.com'') [])
     = None"
proof -
  let ?d1 = "JObj [(''category'', JStr []), (''threat_category'', JStr ''Phishing''),
                   (''reputation_score'', JNum (Finite (- 3)))]"
  let ?d2 = "JObj [(''webfilter_category'', JStr ''Games''), (''threat'', JNum (Finite 0))]"
  let ?u = "JStr ''http://example.com''"
  let ?eT = "noEnv\<lparr>env_TALOS_API_URL := Some ''https://talos.example/lookup''\<rparr>"
  let ?eF = "noEnv\<lparr>env_FORTIGUARD_API_URL := Some ''https://fortiguard.example/lookup''\<rparr>"
  have urls: "TALOS_API_URL ?eT = ''https://talos.example/lookup''"
    "FORTIGUARD_API_URL ?eF = ''https://fortiguard.example/lookup''"
    by (simp_all add: TALOS_API_URL_def FORTIGUARD_API_URL_def envOr_def noEnv_def)
  have ok: "\<not> forbiddenHost ''https://talos.example/lookup''"
    "\<not> forbiddenHost ''https://fortiguard.example/lookup''"
    by (simp_all add: forbiddenHost_def hostAndPort_def)
  have r1: "talosMapping ?d1
     = Inr \<lparr>category = JStr ''Phishing'', raw = ?d1, score = JNum (Finite (- 3))\<rparr>"
    using client_field_mapping [where data = ?d1 and net = "\<lambda>issued req. Rejected"
        and issued = "[]" and e = noEnv and u = ?u and st = 200]
    by (simp add: ownProp_def)
  have r2: "fst (queryFortiGuard ?eF (\<lambda>issued req. Response True 200 (Some ?d2)) ?u [])
     = Some \<lparr>category = JStr ''Games'', raw = ?d2, threat = JNull\<rparr>"
    using client_field_mapping [where data = ?d2
        and net = "\<lambda>issued req. Response True 200 (Some ?d2)"
        and issued = "[]" and e = ?eF and u = ?u and st = 200] urls(2) ok(2)
    by (simp add: ownProp_def fetch_def postRequest_def)
  have r3: "fst (queryTalos ?eT (\<lambda>issued req. Response True 200 (Some JNull)) ?u []) = None"
    using client_field_mapping [where data = JNull
        and net = "\<lambda>issued req. Response True 200 (Some JNull)"
        and issued = "[]" and e = ?eT and u = ?u and st = 200] urls(1) ok(1)
    by (simp add: fetch_def postRequest_def)
  show ?thesis using r1 r2 r3 by simp
qed

text \<open>
  Claim C9 as it is stated fails on a candidate that is not \<^verbatim>\<open>null\<close> and not truthy:
  with a \<^verbatim>\<open>score\<close> of \<open>0\<close> and a \<^verbatim>\<open>reputation_score\<close> of \<open>-5\<close> the first
  candidate that is not \<^verbatim>\<open>null\<close> is \<open>0\<close>, and the mapping gives \<open>-5\<close>.
\<close>

theorem client_field_mapping_counterexample:
  "talosMapping (JObj [(''score'', JNum (Finite 0)), (''reputation_score'', JNum (Finite (- 5)))])
     = Inr \<lparr>category = JNull,
            raw = JObj [(''score'', JNum (Finite 0)), (''reputation_score'', JNum (Finite (- 5)))],
            score = JNum (Finite (- 5))\<rparr>
   \<and> firstWhere nonNull
       [ownProp (JObj [(''score'', JNum (Finite 0)), (''reputation_score'', JNum (Finite (- 5)))])
          ''score'',
        ownProp (JObj [(''score'', JNum (Finite 0)), (''reputation_score'', JNum (Finite (- 5)))])
          ''reputation_score'']
     = JNum (Finite 0)"
  by (simp add: talosMapping_def firstTruthy_def andThen_def js_or_def ownProp_def)

section \<open>The batch\<close>

lemma scanOne_url: "url (fst (scanOne qT qF js u w)) = u"
  by (simp add: scanOne_def errorResult_def andThen_def split: prod.splits sum.splits)

lemma scanLoop_urls: "map url (fst (scanLoop qT qF js us rs w)) = map url rs @ us"
proof (induction us arbitrary: rs w)
  case Nil
  then show ?case by simp
next
  case (Cons u us)
  obtain r w' where step: "scanOne qT qF js u w = (r, w')" by (cases "scanOne qT qF js u w")
  then have "url r = u" using scanOne_url [of qT qF js u w] by simp
  then show ?case using Cons.IH [of "rs @ [r]" w'] step by simp
qed

lemma scanLoop_acc:
  "scanLoop qT qF js us rs w
     = (rs @ fst (scanLoop qT qF js us [] w), snd (scanLoop qT qF js us [] w))"
proof (induction us arbitrary: rs w)
  case Nil
  then show ?case by simp
next
  case (Cons u us)
  obtain r w' where step: "scanOne qT qF js u w = (r, w')" by (cases "scanOne qT qF js u w")
  show ?case
    using Cons.IH [of "rs @ [r]" w'] Cons.IH [of "[r]" w'] step by simp
qed

lemma scanLoop_append:
  "scanLoop qT qF js (us1 @ us2) rs w
     = scanLoop qT qF js us2 (fst (scanLoop qT qF js us1 rs w))
         (snd (scanLoop qT qF js us1 rs w))"
proof (induction us1 arbitrary: rs w)
  case Nil
  then show ?case by simp
next
  case (Cons u us1)
  obtain r w' where step: "scanOne qT qF js u w = (r, w')" by (cases "scanOne qT qF js u w")
  show ?case using Cons.IH [of "rs @ [r]" w'] step by simp
qed

lemma scanOne_throws:
  assumes "qT u w1 = (r1, w2)" and "qF u w2 = (r2, w3)"
    and "(\<exists>e. r1 = Inl e) \<or> (\<exists>e. r2 = Inl e)"
  shows "scanOne qT qF js u w1 = (errorResult u, w3)"
  using assms by (auto simp: scanOne_def andThen_def split: sum.splits)

lemma api_scan_nonempty:
  "us \<noteq> [] \<Longrightarrow>
   api_scan qT qF js (JArr us) w
     = (\<lparr>httpStatus = 200, errorMessage = None,
         results = fst (scanLoop qT qF js us [] w)\<rparr>,
        snd (scanLoop qT qF js us [] w))"
  by (simp add: api_scan_def split: prod.splits)

text \<open>
  A URL that is not a string makes the classifier throw at \<^verbatim>\<open>url.toLowerCase()\<close>:
  with the module's clients, which never throw, this is how the \<^verbatim>\<open>catch\<close> of the
  loop is reached.
\<close>

lemma scanOne_url_not_string:
  assumes "\<forall>s. u \<noteq> JStr s"
  shows "fst (scanOne qT qF js u w) = errorResult u"
proof -
  have "call_toLowerCase js u = Inl TypeError"
    using assms by (cases u) simp_all
  then show ?thesis
    by (simp add: scanOne_def classifyFromEngines_def andThen_def
        split: prod.splits sum.splits)
qed

text \<open>
  Claim C5. For a list of \<open>N \<ge> 1\<close> URLs the handler answers with status 200 and
  exactly \<open>N\<close> entries, whose \<^verbatim>\<open>url\<close> fields are the URLs of the request in their
  order, duplicates included. This holds for any two clients, whatever they return or
  throw, and so for the module's clients over any network.
\<close>

theorem scan_preserves_order:
  assumes "us \<noteq> []"
  shows "httpStatus (fst (api_scan qT qF js (JArr us) w)) = 200
       \<and> map url (results (fst (api_scan qT qF js (JArr us) w))) = us
       \<and> length (results (fst (api_scan qT qF js (JArr us) w))) = length us
       \<and> map url (results (fst (scanHandler e net js (JArr us) issued))) = us
       \<and> length (results (fst (scanHandler e net js (JArr us) issued))) = length us"
proof -
  have a: "map url (fst (scanLoop qT qF js us [] w)) = us" for qT qF and w :: 'c
    using scanLoop_urls [of qT qF js us "[]" w] by simp
  have b: "length (fst (scanLoop qT qF js us [] w)) = length us" for qT qF and w :: 'c
    using a [of qT qF w] length_map [of url "fst (scanLoop qT qF js us [] w)"] by simp
  show ?thesis
    using assms by (simp add: scanHandler_def api_scan_nonempty a b)
qed

theorem scan_preserves_order_witness:
  "map url (results (fst (scanHandler noEnv (\<lambda>issued req. Rejected) exampleBuiltins
      (JArr [JStr ''http://a.example'', JStr ''http://b.example'', JStr ''http://a.example''])
      [])))
   = [JStr ''http://a.example'', JStr ''http://b.example'', JStr ''http://a.example'']
   \<and> length (results (fst (scanHandler noEnv (\<lambda>issued req. Rejected) exampleBuiltins
      (JArr [JStr ''http://a.example'', JStr ''http://b.example'', JStr ''http://a.example''])
      []))) = 3"
  using scan_preserves_order
    [of "[JStr ''http://a.example'', JStr ''http://b.example'', JStr ''http://a.example'']"
      "resolved (queryTalos noEnv (\<lambda>issued req. Rejected))"
      "resolved (queryFortiGuard noEnv (\<lambda>issued req. Rejected))"
      exampleBuiltins "[]" noEnv "\<lambda>issued req. Rejected" "[]"]
  by simp

text \<open>
  Claim C6, as amended. Let the loop have run over the URLs \<open>us1\<close>, with entries \<open>rs1\<close>, and let a
  client throw for the next URL \<open>u\<close>. Then the entry of \<open>u\<close> is the fallback (status
  \<^verbatim>\<open>unknown\<close>, label \<^verbatim>\<open>Unsure\<close>, the one reason
  \<^verbatim>\<open>Error querying Talos/FortiGuard.\<close> whichever client threw, both fragments
  \<^verbatim>\<open>null\<close>), and the batch goes on: the response has status 200 and
  holds \<open>rs1\<close>, the fallback, and the entries \<open>rs2\<close> the loop gives to the remaining
  URLs \<open>us2\<close>.
\<close>

theorem scan_isolates_failure:
  assumes "scanLoop qT qF js us1 [] w = (rs1, w1)"
    and "qT u w1 = (r1, w2)" and "qF u w2 = (r2, w3)"
    and "(\<exists>e. r1 = Inl e) \<or> (\<exists>e. r2 = Inl e)"
    and "scanLoop qT qF js us2 [] w3 = (rs2, w4)"
  shows "api_scan qT qF js (JArr (us1 @ u # us2)) w
           = (\<lparr>httpStatus = 200, errorMessage = None,
               results = rs1 @ [errorResult u] @ rs2\<rparr>, w4)
       \<and> errorResult u
           = \<lparr>status = ''unknown'', label = ''Unsure'',
              reason = ''Error querying Talos/FortiGuard.'',
              url = u, talos = None, fortiguard = None\<rparr>"
proof -
  have one: "scanOne qT qF js u w1 = (errorResult u, w3)"
    using scanOne_throws [of qT u w1 r1 w2 qF r2 w3 js] assms(2) assms(3) assms(4) by simp
  have "scanLoop qT qF js (us1 @ u # us2) [] w = scanLoop qT qF js (u # us2) rs1 w1"
    using scanLoop_append [of qT qF js us1 "u # us2" "[]" w] assms(1) by simp
  also have "\<dots> = scanLoop qT qF js us2 (rs1 @ [errorResult u]) w3"
    using one by simp
  also have "\<dots> = ((rs1 @ [errorResult u]) @ rs2, w4)"
    using scanLoop_acc [of qT qF js us2 "rs1 @ [errorResult u]" w3] assms(5) by simp
  finally have "scanLoop qT qF js (us1 @ u # us2) [] w = (rs1 @ [errorResult u] @ rs2, w4)"
    by simp
  then show ?thesis
    by (simp add: api_scan_nonempty errorResult_def)
qed

text \<open>Talos throws for the second of three URLs; the first and the third are classified.\<close>

theorem scan_isolates_failure_witness:
  "api_scan
     (\<lambda>u w. (if u = JStr ''http://b.example'' then Inl TypeError
              else Inr (Some \<lparr>category = JStr ''Games'', raw = JNull, score = JNull\<rparr>),
             w + 1))
     (\<lambda>u w. (Inr None, w + 1))
     exampleBuiltins
     (JArr [JStr ''http://a.example'', JStr ''http://b.example'', JStr ''http://c.example''])
     (0 :: nat)
   = (\<lparr>httpStatus = 200, errorMessage = None,
       results =
         [\<lparr>status = ''review'', label = ''Needs review'', reason = reason reviewVerdict,
           url = JStr ''http://a.example'',
           talos = Some \<lparr>category = JStr ''Games'', raw = JNull, score = JNull\<rparr>,
           fortiguard = None\<rparr>,
          \<lparr>status = ''unknown'', label = ''Unsure'',
           reason = ''Error querying Talos/FortiGuard.'',
           url = JStr ''http://b.example'', talos = None, fortiguard = None\<rparr>,
          \<lparr>status = ''review'', label = ''Needs review'', reason = reason reviewVerdict,
           url = JStr ''http://c.example'',
           talos = Some \<lparr>category = JStr ''Games'', raw = JNull, score = JNull\<rparr>,
           fortiguard = None\<rparr>]\<rparr>,
      6)"
proof -
  let ?qT = "\<lambda>u (w :: nat).
    (if u = JStr ''http://b.example'' then Inl TypeError
     else Inr (Some \<lparr>category = JStr ''Games'', raw = JNull, score = JNull\<rparr>), w + 1)"
  let ?qF = "\<lambda>(u :: jsval) (w :: nat). (Inr (None :: fortiFragment option) :: error + _, w + 1)"
  let ?entry = "\<lambda>u. \<lparr>status = ''review'', label = ''Needs review'', reason = reason reviewVerdict,
      url = u, talos = Some \<lparr>category = JStr ''Games'', raw = JNull, score = JNull\<rparr>,
      fortiguard = None\<rparr>"
  have k: "keywordVerdict ''games'' = reviewVerdict"
    by (simp add: keywordVerdict_def signal_defs)
  have cl: "classifyFromEngines exampleBuiltins (JStr v)
      (Some \<lparr>category = JStr ''Games'', raw = JNull, score = JNull\<rparr>)
      (None :: fortiFragment option) = Inr reviewVerdict" for v
    using k by (simp add: classify_defs)
  have before: "scanLoop ?qT ?qF exampleBuiltins [JStr ''http://a.example''] [] 0
      = ([?entry (JStr ''http://a.example'')], 2)"
    by (simp add: scanOne_def andThen_def cl reviewVerdict_def)
  have after: "scanLoop ?qT ?qF exampleBuiltins [JStr ''http://c.example''] [] 4
      = ([?entry (JStr ''http://c.example'')], 6)"
    by (simp add: scanOne_def andThen_def cl reviewVerdict_def)
  have t: "?qT (JStr ''http://b.example'') 2 = (Inl TypeError, 3)" by simp
  have f: "?qF (JStr ''http://b.example'') 3 = (Inr None, 4)" by simp
  have thrown: "(\<exists>e. (Inl TypeError :: error + talosFragment option) = Inl e)
      \<or> (\<exists>e. (Inr None :: error + fortiFragment option) = Inl e)"
    by simp
  show ?thesis
    using scan_isolates_failure [OF before t f thrown after] by simp
qed

text \<open>
  Claim C6 as it is stated has the reason name the service that failed. It does not:
  when only Talos throws and when only FortiGuard throws the entry is the same, with
  the one reason that names both services.
\<close>

theorem scan_isolates_failure_counterexample:
  "fst (scanOne (\<lambda>u w. (Inl TypeError, w)) (\<lambda>u w. (Inr None, w)) exampleBuiltins
         (JStr ''http://example.com'') (0 :: nat))
     = errorResult (JStr ''http://example.com'')
   \<and> fst (scanOne (\<lambda>u w. (Inr None, w)) (\<lambda>u w. (Inl TypeError, w)) exampleBuiltins
         (JStr ''http://example.com'') (0 :: nat))
     = errorResult (JStr ''http://example.com'')
   \<and> reason (errorResult (JStr ''http://example.com'')) = ''Error querying Talos/FortiGuard.''"
  by (simp add: scanOne_def andThen_def errorResult_def)

text \<open>
  Claim C7. When \<^verbatim>\<open>req.body.urls\<close> is the empty list or is not a list, the handler
  answers with status 400, an error message and an empty list of results, and calls no
  client: the state comes back unchanged, and with the module's clients no request is
  issued.
\<close>

theorem scan_rejects_non_list:
  assumes "bodyUrls = JArr [] \<or> (\<forall>xs. bodyUrls \<noteq> JArr xs)"
  shows "api_scan qT qF js bodyUrls w
           = (\<lparr>httpStatus = 400, errorMessage = Some ''No URLs provided.'', results = []\<rparr>, w)
       \<and> scanHandler e net js bodyUrls issued
           = (\<lparr>httpStatus = 400, errorMessage = Some ''No URLs provided.'', results = []\<rparr>,
              issued)"
  using assms by (cases bodyUrls) (simp_all add: api_scan_def scanHandler_def)

theorem scan_rejects_non_list_witness:
  "scanHandler noEnv (\<lambda>issued req. Response True 200 (Some (JObj []))) exampleBuiltins (JArr []) []
     = (\<lparr>httpStatus = 400, errorMessage = Some ''No URLs provided.'', results = []\<rparr>, [])
   \<and> scanHandler noEnv (\<lambda>issued req. Response True 200 (Some (JObj []))) exampleBuiltins
       (JStr ''http://example.com'') []
     = (\<lparr>httpStatus = 400, errorMessage = Some ''No URLs provided.'', results = []\<rparr>, [])
   \<and> scanHandler noEnv (\<lambda>issued req. Response True 200 (Some (JObj []))) exampleBuiltins
       JUndefined []
     = (\<lparr>httpStatus = 400, errorMessage = Some ''No URLs provided.'', results = []\<rparr>, [])"
proof -
  let ?net = "\<lambda>(issued :: request list) (req :: request). Response True 200 (Some (JObj []))"
  let ?qT = "resolved (queryTalos noEnv ?net)"
  let ?qF = "resolved (queryFortiGuard noEnv ?net)"
  have h1: "JArr [] = JArr [] \<or> (\<forall>xs. JArr [] \<noteq> JArr xs)" by simp
  have h2: "JStr ''http://example.com'' = JArr [] \<or> (\<forall>xs. JStr ''http://example.com'' \<noteq> JArr xs)"
    by simp
  have h3: "JUndefined = JArr [] \<or> (\<forall>xs. JUndefined \<noteq> JArr xs)" by simp
  show ?thesis
    using scan_rejects_non_list [OF h1, of ?qT ?qF exampleBuiltins "[]" noEnv ?net "[]"]
      scan_rejects_non_list [OF h2, of ?qT ?qF exampleBuiltins "[]" noEnv ?net "[]"]
      scan_rejects_non_list [OF h3, of ?qT ?qF exampleBuiltins "[]" noEnv ?net "[]"]
    by simp
qed

end
